theory Spec2Isabelle
  imports Main "HOL-Library.AList" "HOL-Library.Sublist"
begin

section \<open>Go values shared by the packages\<close>

text \<open>
  A Go function either returns or panics. Errors are values: \<open>nil\<close> is \<open>None\<close>.
  \<open>ErrNotSigned\<close> is the package-level sentinel of the command package; Go compares
  it by identity, so it is a constructor of its own and differs from every other
  error, whatever that error's message is. \<open>ErrorString\<close> stands for the values made
  by \<open>errors.New\<close> and \<open>fmt.Errorf\<close>, \<open>PathError\<close> for \<open>*os.PathError\<close>
  (operation, file name, cause).
\<close>

datatype 'a outcome = Returns 'a | Panics string

type_synonym path = "string list"

text \<open>
  The bytes of a file or of a stream. The gzipped tar that the archiver emits is
  kept symbolic, as one item that holds the archived files (relative path and
  bytes) and directories, so that what an archive contains can be read off it.
\<close>

datatype item = Ch char | Tgz "(path \<times> item list) list" "path list"

type_synonym bytes = "item list"

definition bytes_of :: "string \<Rightarrow> bytes" where
  "bytes_of s = map Ch s"

datatype errno = ENOENT | ENOTDIR | EISDIR | EACCES | EEXIST | ENOSPC | EIO

datatype go_error =
    ErrNotSigned
  | ErrorString string
  | PathError string string errno

fun errno_message :: "errno \<Rightarrow> string" where
  "errno_message ENOENT = ''no such file or directory''"
| "errno_message ENOTDIR = ''not a directory''"
| "errno_message EISDIR = ''is a directory''"
| "errno_message EACCES = ''permission denied''"
| "errno_message EEXIST = ''file exists''"
| "errno_message ENOSPC = ''no space left on device''"
| "errno_message EIO = ''input/output error''"

text \<open>The method \<open>Error()\<close>, which \<open>%s\<close> and \<open>%v\<close> of \<open>fmt.Errorf\<close> print.\<close>

fun Error :: "go_error \<Rightarrow> string" where
  "Error ErrNotSigned = ''bundle is not signed''"
| "Error (ErrorString s) = s"
| "Error (PathError opn name e) = opn @ '' '' @ name @ '': '' @ errno_message e"

text \<open>\<open>os.IsNotExist\<close>: true on an error that wraps \<open>ENOENT\<close>, false on \<open>nil\<close> and on the rest.\<close>

fun os_IsNotExist :: "go_error option \<Rightarrow> bool" where
  "os_IsNotExist (Some (PathError opn name ENOENT)) = True"
| "os_IsNotExist e = False"

section \<open>Strings\<close>

text \<open>
  \<open>strings.Replace(s, old, new, -1)\<close> for a non-empty \<open>old\<close>: scan left to right and
  replace every non-overlapping occurrence. Both calls in the source pass a
  one-byte \<open>old\<close>; for an empty \<open>old\<close> (never passed) the model leaves \<open>s\<close> as it is.
\<close>

function strings_Replace :: "string \<Rightarrow> string \<Rightarrow> string \<Rightarrow> string" where
  "strings_Replace [] old new = []"
| "strings_Replace (c # cs) old new =
     (if old \<noteq> [] \<and> prefix old (c # cs)
      then new @ strings_Replace (drop (length old) (c # cs)) old new
      else c # strings_Replace cs old new)"
  by pat_completeness auto
termination
  by (relation "measure (\<lambda>(s, old, new). length s)") (auto simp: neq_Nil_conv)

text \<open>\<open>buildFileName\<close> of export.go.\<close>

definition buildFileName :: "string \<Rightarrow> string" where
  "buildFileName uri =
     (let filename = strings_Replace uri ''/'' ''-''
      in strings_Replace filename '':'' ''-'')"

text \<open>\<open>strings.Split(s, sep)\<close> for a one-byte separator.\<close>

fun split_on :: "char \<Rightarrow> string \<Rightarrow> string list" where
  "split_on sep [] = [[]]"
| "split_on sep (c # cs) =
     (if c = sep then [] # split_on sep cs
      else (case split_on sep cs of
              w # ws \<Rightarrow> (c # w) # ws
            | [] \<Rightarrow> [[c]]))"

section \<open>The example driver\<close>

text \<open>
  The script reads \<open>$1\<close> (empty when there is no argument; \<open>set -u\<close> is not in force),
  compares it literally, and in its main mode pipes standard input through
  \<open>jq .action\<close>. \<open>jq\<close> is an external program: its output and exit code on a given
  input are a parameter. \<open>echo\<close> ends its line with a newline, \<open>echo -n\<close> does not.
\<close>

record process_result =
  stdout :: string
  exit_code :: nat

definition newline :: char where
  "newline = CHR 0x0A"

definition first_arg :: "string list \<Rightarrow> string" where
  "first_arg args = (case args of [] \<Rightarrow> [] | a # _ \<Rightarrow> a)"

definition driver :: "(string \<Rightarrow> string \<times> nat) \<Rightarrow> string list \<Rightarrow> string \<Rightarrow> process_result" where
  "driver jq_action args stdin =
     (if first_arg args = ''--handles''
      then \<lparr>stdout = ''docker,oci,qcow'' @ [newline], exit_code = 0\<rparr>
      else if first_arg args = ''--help''
      then \<lparr>stdout = ''Put yer helptext here'' @ [newline], exit_code = 1\<rparr>
      else (case jq_action stdin of
              (out, code) \<Rightarrow> \<lparr>stdout = ''Plugin: The action is '' @ out, exit_code = code\<rparr>))"

section \<open>The bundle\<close>

text \<open>
  The fields of \<open>bundle.Bundle\<close> that the exporter reads and writes. \<open>Images\<close> is a Go
  map: here an association list whose order is the order in which \<open>range\<close> happens
  to visit the keys in this run (Go leaves it unspecified; every theorem holds for
  every order). \<open>Image\<close> and \<open>InvocationImage\<close> both embed the same base image.
\<close>

record base_image =
  Image :: string
  Digest :: string

record Bundle =
  Name :: string
  Version :: string
  Images :: "(string \<times> base_image) list"
  InvocationImages :: "base_image list"

section \<open>Loading a bundle in the command package\<close>

text \<open>
  A loader is its \<open>Load\<close> method: from a file name to the pair Go returns.
  \<open>homePath\<close>, \<open>loadVerifyingKeyRings\<close> and the two loader constructors belong to
  other packages and are parameters.
\<close>

type_synonym loader = "string \<Rightarrow> Bundle option \<times> go_error option"

record 'kr load_env =
  homePath :: string
  loadVerifyingKeyRings :: "string \<Rightarrow> go_error + 'kr"
  NewDetectingLoader :: loader
  NewSecureLoader :: "'kr \<Rightarrow> loader"

definition getLoader :: "'kr load_env \<Rightarrow> string \<Rightarrow> bool \<Rightarrow> go_error + loader" where
  "getLoader env home insecure =
     (if insecure then Inr (NewDetectingLoader env)
      else (case loadVerifyingKeyRings env home of
              Inl err \<Rightarrow> Inl (ErrorString (''cannot securely load bundle: '' @ Error err))
            | Inr kr \<Rightarrow> Inr (NewSecureLoader env kr)))"

definition loadBundle :: "'kr load_env \<Rightarrow> string \<Rightarrow> bool \<Rightarrow> Bundle option \<times> go_error option" where
  "loadBundle env bundleFile insecure =
     (case getLoader env (homePath env) insecure of
        Inl err \<Rightarrow> (None, Some err)
      | Inr l \<Rightarrow>
          (case l bundleFile of
             (bun, Some err) \<Rightarrow>
               if Error err = ''no signature block in data'' then (bun, Some ErrNotSigned)
               else (let secflag = (if insecure then ''insecure'' else ''secure'')
                     in (bun, Some (ErrorString
                           (''cannot load '' @ secflag @ '' bundle: '' @ Error err))))
           | (bun, None) \<Rightarrow> (bun, None)))"

section \<open>The in-process digester\<close>

text \<open>
  The Docker client answers \<open>ImageSave\<close> with an error (and a nil reader) or with a
  stream: its bytes, and the error a read runs into after them, if any. The state
  is the list of response streams that are open, named by their image.
  \<open>digest.Canonical.FromReader\<close> copies the reader into the hash with \<open>io.Copy\<close>;
  on a nil reader that call dereferences nil. The hash itself is a parameter.
\<close>

record stream =
  stream_data :: bytes
  read_error :: "go_error option"

record digester_client =
  client_ImageSave :: "string \<Rightarrow> go_error + stream"
  canonical_digest :: "bytes \<Rightarrow> string"

definition FromReader :: "digester_client \<Rightarrow> stream option \<Rightarrow> (go_error + string) outcome" where
  "FromReader cl reader =
     (case reader of
        None \<Rightarrow> Panics ''invalid memory address or nil pointer dereference''
      | Some s \<Rightarrow>
          (case read_error s of
             Some err \<Rightarrow> Returns (Inl err)
           | None \<Rightarrow> Returns (Inr (canonical_digest cl (stream_data s)))))"

definition stream_Close :: "string \<Rightarrow> string list \<Rightarrow> string list" where
  "stream_Close h opened = remove1 h opened"

text \<open>
  \<open>Digester.Digest\<close>: the error of \<open>ImageSave\<close> is overwritten unread, and
  \<open>defer reader.Close()\<close> is registered only after the error return.
\<close>

definition Digester_Digest ::
  "digester_client \<Rightarrow> string \<Rightarrow> string list \<Rightarrow> (string \<times> go_error option) outcome \<times> string list" where
  "Digester_Digest cl img opened =
     (let (reader, opened1) =
            (case client_ImageSave cl img of
               Inl err \<Rightarrow> (None, opened)
             | Inr s \<Rightarrow> (Some s, opened @ [img]))
      in case FromReader cl reader of
           Panics msg \<Rightarrow> (Panics msg, opened1)
         | Returns (Inl err) \<Rightarrow> (Returns ('''', Some err), opened1)
         | Returns (Inr computedDigest) \<Rightarrow>
             (Returns (computedDigest, None), stream_Close img opened1))"


section \<open>The file system, the Docker daemon and the signer\<close>

text \<open>
  A path is the list of the components of a cleaned absolute path; the root is
  \<open>[]\<close>. The world holds the regular files with their bytes, the directories, and
  the requests made so far to the Docker daemon and to the signer, oldest first.
  There are no symbolic links, and a file opened by this process is written by
  nobody else, so an open file is named by its path.
\<close>

datatype call = CallImagePull string | CallImageSave string | CallClearsign string Bundle

record world =
  files :: "(path \<times> bytes) list"
  dirs :: "path list"
  calls :: "call list"

datatype sysop =
    OpGetwd | OpStat path | OpCreate path | OpOpen path | OpOpenFile path
  | OpMkdirAll path | OpRemoveAll path | OpRead path | OpWrite path | OpTar path

text \<open>
  What the exporter is given and does not define: the working directory, the
  failures the operating system can answer any call with for reasons outside the
  model (permissions, a full disk), the loader, the Docker client, the keyring
  loader, key lookup and the signer.
  Modelled from the spec: a keyring is the ordered collection of its keys, so
  \<open>Len\<close> is its length and \<open>Keys\<close> the list; a key is named by its identity.
\<close>

record export_env =
  cwd :: path
  fault :: "sysop \<Rightarrow> errno option"
  Loader_Load :: "world \<Rightarrow> string \<Rightarrow> go_error + Bundle"
  Client_ImagePull :: "string \<Rightarrow> go_error + stream"
  Client_ImageSave :: "string \<Rightarrow> go_error + stream"
  LoadKeyRing :: "world \<Rightarrow> string \<Rightarrow> go_error + string list"
  Keyring_Key :: "string list \<Rightarrow> string \<Rightarrow> go_error + string"
  Signer_Clearsign :: "string \<Rightarrow> Bundle \<Rightarrow> bytes \<times> go_error option"

subsection \<open>Paths\<close>

definition render_path :: "path \<Rightarrow> string" where
  "render_path p = (if p = [] then ''/'' else concat (map (\<lambda>c. CHR ''/'' # c) p))"

text \<open>\<open>filepath.Clean\<close> on components: empty and \<open>.\<close> are dropped, \<open>..\<close> leaves a directory.\<close>

fun clean_onto :: "path \<Rightarrow> string list \<Rightarrow> path" where
  "clean_onto acc [] = acc"
| "clean_onto acc (c # cs) =
     (if c = [] \<or> c = ''.'' then clean_onto acc cs
      else if c = ''..'' then clean_onto (butlast acc) cs
      else clean_onto (acc @ [c]) cs)"

definition is_abs :: "string \<Rightarrow> bool" where
  "is_abs s = (case s of [] \<Rightarrow> False | c # _ \<Rightarrow> c = CHR ''/'')"

definition filepath_Join :: "path \<Rightarrow> string \<Rightarrow> path" where
  "filepath_Join dir elem = clean_onto dir (split_on CHR ''/'' elem)"

definition filepath_Abs :: "export_env \<Rightarrow> string \<Rightarrow> go_error + path" where
  "filepath_Abs env s =
     (if is_abs s then Inr (clean_onto [] (split_on CHR ''/'' s))
      else (case fault env OpGetwd of
              Some e \<Rightarrow> Inl (PathError ''getwd'' ''.'' e)
            | None \<Rightarrow> Inr (clean_onto (cwd env) (split_on CHR ''/'' s))))"

text \<open>The path a system call reaches from a file name; the empty name reaches nothing.\<close>

definition resolve :: "export_env \<Rightarrow> string \<Rightarrow> errno + path" where
  "resolve env s =
     (if s = [] then Inl ENOENT
      else Inr (clean_onto (if is_abs s then [] else cwd env) (split_on CHR ''/'' s)))"

subsection \<open>System calls\<close>

definition is_dir :: "world \<Rightarrow> path \<Rightarrow> bool" where
  "is_dir w p = (p = [] \<or> p \<in> set (dirs w))"

definition is_file :: "world \<Rightarrow> path \<Rightarrow> bool" where
  "is_file w p = (p \<in> set (map fst (files w)))"

text \<open>Why \<open>q\<close> is not a directory: a regular file on the way, or nothing there.\<close>

definition missing_errno :: "world \<Rightarrow> path \<Rightarrow> errno" where
  "missing_errno w q = (if list_ex (is_file w) (prefixes q) then ENOTDIR else ENOENT)"

record file_info =
  IsDir :: bool

definition stat_path :: "export_env \<Rightarrow> world \<Rightarrow> string \<Rightarrow> path \<Rightarrow> go_error + file_info" where
  "stat_path env w name p =
     (case fault env (OpStat p) of
        Some e \<Rightarrow> Inl (PathError ''stat'' name e)
      | None \<Rightarrow>
          if is_dir w p then Inr \<lparr>IsDir = True\<rparr>
          else if is_file w p then Inr \<lparr>IsDir = False\<rparr>
          else Inl (PathError ''stat'' name (missing_errno w (butlast p))))"

definition os_Stat :: "export_env \<Rightarrow> world \<Rightarrow> string \<Rightarrow> go_error + file_info" where
  "os_Stat env w name =
     (case resolve env name of
        Inl e \<Rightarrow> Inl (PathError ''stat'' name e)
      | Inr p \<Rightarrow> stat_path env w name p)"

text \<open>
  \<open>os.Create\<close> at a path: \<open>O_RDWR|O_CREATE|O_TRUNC\<close>. The file is empty afterwards;
  the parent directory must exist.
\<close>

definition create_path :: "export_env \<Rightarrow> world \<Rightarrow> string \<Rightarrow> path \<Rightarrow> go_error + world" where
  "create_path env w name p =
     (case fault env (OpCreate p) of
        Some e \<Rightarrow> Inl (PathError ''open'' name e)
      | None \<Rightarrow>
          if is_dir w p then Inl (PathError ''open'' name EISDIR)
          else if \<not> is_dir w (butlast p)
          then Inl (PathError ''open'' name (missing_errno w (butlast p)))
          else Inr (w\<lparr>files := AList.update p [] (files w)\<rparr>))"

definition os_Create :: "export_env \<Rightarrow> world \<Rightarrow> string \<Rightarrow> go_error + path \<times> world" where
  "os_Create env w name =
     (case resolve env name of
        Inl e \<Rightarrow> Inl (PathError ''open'' name e)
      | Inr p \<Rightarrow>
          (case create_path env w name p of
             Inl err \<Rightarrow> Inl err
           | Inr w' \<Rightarrow> Inr (p, w')))"

text \<open>\<open>os.OpenFile\<close> with \<open>O_RDWR|O_CREATE\<close>: an existing file keeps its bytes.\<close>

definition os_OpenFile :: "export_env \<Rightarrow> world \<Rightarrow> path \<Rightarrow> go_error + world" where
  "os_OpenFile env w p =
     (case fault env (OpOpenFile p) of
        Some e \<Rightarrow> Inl (PathError ''open'' (render_path p) e)
      | None \<Rightarrow>
          if is_dir w p then Inl (PathError ''open'' (render_path p) EISDIR)
          else if \<not> is_dir w (butlast p)
          then Inl (PathError ''open'' (render_path p) (missing_errno w (butlast p)))
          else if is_file w p then Inr w
          else Inr (w\<lparr>files := AList.update p [] (files w)\<rparr>))"

text \<open>\<open>os.Open\<close>: read only; a directory can be opened, reading it fails later.\<close>

definition os_Open :: "export_env \<Rightarrow> world \<Rightarrow> string \<Rightarrow> go_error + path" where
  "os_Open env w name =
     (case resolve env name of
        Inl e \<Rightarrow> Inl (PathError ''open'' name e)
      | Inr p \<Rightarrow>
          (case fault env (OpOpen p) of
             Some e \<Rightarrow> Inl (PathError ''open'' name e)
           | None \<Rightarrow>
               if is_dir w p \<or> is_file w p then Inr p
               else Inl (PathError ''open'' name (missing_errno w (butlast p)))))"

text \<open>
  \<open>os.MkdirAll\<close>: nothing to do on a directory; a regular file at the path or above
  it is \<open>ENOTDIR\<close>; otherwise every missing directory on the way is made.
\<close>

definition os_MkdirAll :: "export_env \<Rightarrow> world \<Rightarrow> path \<Rightarrow> go_error + world" where
  "os_MkdirAll env w p =
     (case fault env (OpMkdirAll p) of
        Some e \<Rightarrow> Inl (PathError ''mkdir'' (render_path p) e)
      | None \<Rightarrow>
          if list_ex (is_file w) (prefixes p)
          then Inl (PathError ''mkdir'' (render_path p) ENOTDIR)
          else Inr (w\<lparr>dirs := dirs w @ filter (\<lambda>q. \<not> is_dir w q) (prefixes p)\<rparr>))"

text \<open>\<open>os.RemoveAll\<close>, as the deferred call uses it: its error is dropped.\<close>

definition os_RemoveAll :: "export_env \<Rightarrow> world \<Rightarrow> path \<Rightarrow> world" where
  "os_RemoveAll env w p =
     (case fault env (OpRemoveAll p) of
        Some e \<Rightarrow> w
      | None \<Rightarrow>
          w\<lparr>files := filter (\<lambda>(q, c). \<not> prefix p q) (files w),
            dirs := filter (\<lambda>q. \<not> prefix p q) (dirs w)\<rparr>)"

text \<open>
  Writing through an open file. A file made by \<open>os.Create\<close> grows at its end;
  the file opened without \<open>O_TRUNC\<close> is overwritten from offset 0 and keeps what
  lies beyond the new bytes. A file unlinked meanwhile is not reachable by path.
\<close>

definition write_append :: "world \<Rightarrow> path \<Rightarrow> bytes \<Rightarrow> world" where
  "write_append w p data =
     (case map_of (files w) p of
        None \<Rightarrow> w
      | Some old \<Rightarrow> w\<lparr>files := AList.update p (old @ data) (files w)\<rparr>)"

definition write_over :: "world \<Rightarrow> path \<Rightarrow> bytes \<Rightarrow> world" where
  "write_over w p data =
     (case map_of (files w) p of
        None \<Rightarrow> w
      | Some old \<Rightarrow> w\<lparr>files := AList.update p (data @ drop (length data) old) (files w)\<rparr>)"

text \<open>The bytes an open file yields to a reader.\<close>

definition file_stream :: "export_env \<Rightarrow> world \<Rightarrow> path \<Rightarrow> stream" where
  "file_stream env w p =
     (case fault env (OpRead p) of
        Some e \<Rightarrow> \<lparr>stream_data = [], read_error = Some (PathError ''read'' (render_path p) e)\<rparr>
      | None \<Rightarrow>
          (case map_of (files w) p of
             Some c \<Rightarrow> \<lparr>stream_data = c, read_error = None\<rparr>
           | None \<Rightarrow>
               \<lparr>stream_data = [], read_error = Some (PathError ''read'' (render_path p) EISDIR)\<rparr>))"

text \<open>
  \<open>io.Copy(dst, src)\<close> into a file: the bytes of the source are written, and the
  error is the write's or else the read's. The first is for a file made by
  \<open>os.Create\<close>, the second for the staged descriptor.
\<close>

definition io_Copy :: "export_env \<Rightarrow> world \<Rightarrow> path \<Rightarrow> stream \<Rightarrow> go_error option \<times> world" where
  "io_Copy env w dst src =
     (case fault env (OpWrite dst) of
        Some e \<Rightarrow> (Some (PathError ''write'' (render_path dst) e), w)
      | None \<Rightarrow> (read_error src, write_append w dst (stream_data src)))"

definition io_Copy_over :: "export_env \<Rightarrow> world \<Rightarrow> path \<Rightarrow> stream \<Rightarrow> go_error option \<times> world" where
  "io_Copy_over env w dst src =
     (case fault env (OpWrite dst) of
        Some e \<Rightarrow> (Some (PathError ''write'' (render_path dst) e), w)
      | None \<Rightarrow> (read_error src, write_over w dst (stream_data src)))"

definition ioutil_WriteFile :: "export_env \<Rightarrow> world \<Rightarrow> path \<Rightarrow> bytes \<Rightarrow> go_error option \<times> world" where
  "ioutil_WriteFile env w p data =
     (case create_path env w (render_path p) p of
        Inl err \<Rightarrow> (Some err, w)
      | Inr w1 \<Rightarrow>
          (case fault env (OpWrite p) of
             Some e \<Rightarrow> (Some (PathError ''write'' (render_path p) e), w1)
           | None \<Rightarrow> (None, write_append w1 p data)))"

text \<open>
  \<open>archive.TarWithOptions\<close> with \<open>IncludeFiles = ["."]\<close>: every file and directory
  below the source directory, and the directory itself, under its path relative to
  the source directory.
\<close>

definition tar_files :: "path \<Rightarrow> world \<Rightarrow> (path \<times> bytes) list" where
  "tar_files dir w =
     map (\<lambda>(p, c). (drop (length dir) p, c)) (filter (\<lambda>(p, c). strict_prefix dir p) (files w))"

definition tar_dirs :: "path \<Rightarrow> world \<Rightarrow> path list" where
  "tar_dirs dir w = map (drop (length dir)) (filter (prefix dir) (dirs w))"

definition archive_TarWithOptions :: "export_env \<Rightarrow> world \<Rightarrow> path \<Rightarrow> go_error + stream" where
  "archive_TarWithOptions env w dir =
     (case fault env (OpTar dir) of
        Some e \<Rightarrow> Inl (PathError ''tar'' (render_path dir) e)
      | None \<Rightarrow>
          Inr \<lparr>stream_data = [Tgz (tar_files dir w) (tar_dirs dir w)], read_error = None\<rparr>)"

section \<open>The exporter\<close>

text \<open>
  The fields of \<open>Exporter\<close> that are data; \<open>Client\<close>, \<open>Context\<close> and \<open>Loader\<close> are in
  the environment.
\<close>

record Exporter =
  Source :: string
  Destination :: string
  Thin :: bool
  Logs :: string
  Unsigned :: bool
  Signer :: string
  SecretKeyRing :: string

definition log_call :: "call \<Rightarrow> world \<Rightarrow> world" where
  "log_call c w = w\<lparr>calls := calls w @ [c]\<rparr>"

text \<open>
  \<open>archiveImage\<close>: pull, copy the pull output to the log (the error of that copy is
  dropped), save, create the artifact and copy the image into it.
\<close>

definition archiveImage ::
  "export_env \<Rightarrow> string \<Rightarrow> path \<Rightarrow> path \<Rightarrow> world \<Rightarrow> (string \<times> string \<times> go_error option) \<times> world" where
  "archiveImage env img artifactsDir logs w =
     (let w0 = log_call (CallImagePull img) w in
      case Client_ImagePull env img of
        Inl err \<Rightarrow>
          (([], [], Some (ErrorString (''Error pulling image '' @ img @ '': '' @ Error err))), w0)
      | Inr pullLogs \<Rightarrow>
          (let w1 = snd (io_Copy env w0 logs pullLogs);
               w2 = log_call (CallImageSave img) w1
           in case Client_ImageSave env img of
                Inl err \<Rightarrow> (([], [], Some err), w2)
              | Inr reader \<Rightarrow>
                  (let name = buildFileName img @ ''.tar'';
                       out = filepath_Join artifactsDir name
                   in case create_path env w2 (render_path out) out of
                        Inl err \<Rightarrow> ((name, [], Some err), w2)
                      | Inr w3 \<Rightarrow>
                          (case io_Copy env w3 out reader of
                             (Some err, w4) \<Rightarrow> ((name, [], Some err), w4)
                           | (None, w4) \<Rightarrow> ((name, ''tempchecksum'', None), w4)))))"

text \<open>The two loops of \<open>prepareArtifacts\<close>, each with the collection it builds.\<close>

fun images_loop ::
  "export_env \<Rightarrow> path \<Rightarrow> path \<Rightarrow> (string \<times> base_image) list \<Rightarrow> (string \<times> base_image) list \<Rightarrow> world
     \<Rightarrow> go_error option \<times> (string \<times> base_image) list \<times> world" where
  "images_loop env artifactsDir logs [] imagesWithShasums w = (None, imagesWithShasums, w)"
| "images_loop env artifactsDir logs ((key, img) # rest) imagesWithShasums w =
     (case archiveImage env (Image img) artifactsDir logs w of
        ((name, checksum, Some err), w1) \<Rightarrow> (Some err, imagesWithShasums, w1)
      | ((name, checksum, None), w1) \<Rightarrow>
          images_loop env artifactsDir logs rest
            (AList.update key (img\<lparr>Digest := checksum\<rparr>) imagesWithShasums) w1)"

fun invocation_loop ::
  "export_env \<Rightarrow> path \<Rightarrow> path \<Rightarrow> base_image list \<Rightarrow> base_image list \<Rightarrow> world
     \<Rightarrow> go_error option \<times> base_image list \<times> world" where
  "invocation_loop env artifactsDir logs [] invocationImagesWithShasums w =
     (None, invocationImagesWithShasums, w)"
| "invocation_loop env artifactsDir logs (inimg # rest) invocationImagesWithShasums w =
     (case archiveImage env (Image inimg) artifactsDir logs w of
        ((name, checksum, Some err), w1) \<Rightarrow> (Some err, invocationImagesWithShasums, w1)
      | ((name, checksum, None), w1) \<Rightarrow>
          invocation_loop env artifactsDir logs rest
            (invocationImagesWithShasums @ [inimg\<lparr>Digest := checksum\<rparr>]) w1)"

definition prepareArtifacts ::
  "export_env \<Rightarrow> Bundle \<Rightarrow> path \<Rightarrow> path \<Rightarrow> world \<Rightarrow> go_error option \<times> Bundle \<times> world" where
  "prepareArtifacts env bun archiveDir logs w =
     (let artifactsDir = filepath_Join archiveDir ''artifacts'' in
      case os_MkdirAll env w artifactsDir of
        Inl err \<Rightarrow> (Some err, bun, w)
      | Inr w1 \<Rightarrow>
          (case images_loop env artifactsDir logs (Images bun) [] w1 of
             (Some err, imagesWithShasums, w2) \<Rightarrow> (Some err, bun, w2)
           | (None, imagesWithShasums, w2) \<Rightarrow>
               (let bun1 = bun\<lparr>Images := imagesWithShasums\<rparr> in
                case invocation_loop env artifactsDir logs (InvocationImages bun1) [] w2 of
                  (Some err, invocationImagesWithShasums, w3) \<Rightarrow> (Some err, bun1, w3)
                | (None, invocationImagesWithShasums, w3) \<Rightarrow>
                    (None, bun1\<lparr>InvocationImages := invocationImagesWithShasums\<rparr>, w3))))"

definition writeBundle ::
  "export_env \<Rightarrow> Bundle \<Rightarrow> string \<Rightarrow> string \<Rightarrow> path \<Rightarrow> world \<Rightarrow> go_error option \<times> world" where
  "writeBundle env bf signer secretKeyRing outputFile w =
     (case LoadKeyRing env w secretKeyRing of
        Inl err \<Rightarrow> (Some (ErrorString (''cannot load keyring: '' @ Error err)), w)
      | Inr kr \<Rightarrow>
          if length kr = 0
          then (Some (ErrorString ''no signing keys are present in the keyring''), w)
          else (case (if signer \<noteq> [] then Keyring_Key env kr signer else Inr (kr ! 0)) of
                  Inl err \<Rightarrow> (Some err, w)
                | Inr key \<Rightarrow>
                    (let w1 = log_call (CallClearsign key bf) w;
                         (signed, serr) = Signer_Clearsign env key bf;
                         data = signed @ [Ch newline]
                     in case serr of
                          Some err \<Rightarrow> (Some (ErrorString (''cannot sign bundle: '' @ Error err)), w1)
                        | None \<Rightarrow>
                            (case ioutil_WriteFile env w1 outputFile data of
                               (Some err, w2) \<Rightarrow>
                                 (Some (ErrorString (''cannot write bundle to ''
                                    @ render_path outputFile @ '': '' @ Error err)), w2)
                             | (None, w2) \<Rightarrow> (None, w2)))))"

text \<open>
  \<open>Export\<close>, in three parts. \<open>Export_archive\<close> is the end of the function, from the
  choice of the destination on: create it, tar the staging directory, copy.
\<close>

definition Export_archive ::
  "Exporter \<Rightarrow> export_env \<Rightarrow> string \<Rightarrow> path \<Rightarrow> world \<Rightarrow> go_error option \<times> world" where
  "Export_archive ex env name archiveDir w =
     (let dest = (if Destination ex \<noteq> [] then Destination ex else name @ ''.tgz'') in
      case os_Create env w dest of
        Inl err \<Rightarrow> (Some (ErrorString (''Error creating archive file: '' @ Error err)), w)
      | Inr (writer, w1) \<Rightarrow>
          (case archive_TarWithOptions env w1 archiveDir of
             Inl err \<Rightarrow> (Some err, w1)
           | Inr rc \<Rightarrow> io_Copy env w1 writer rc))"

text \<open>
  \<open>Export_staged\<close> is what runs once the staging directory is there and its removal
  is deferred: stage the descriptor, and in thick mode prepare the artifacts and
  write the signed bundle over the staged descriptor.
\<close>

definition Export_staged ::
  "Exporter \<Rightarrow> export_env \<Rightarrow> Bundle \<Rightarrow> string \<Rightarrow> path \<Rightarrow> path \<Rightarrow> world \<Rightarrow> go_error option \<times> world" where
  "Export_staged ex env bun name archiveDir logsf w =
     (case os_Open env w (Source ex) of
        Inl err \<Rightarrow> (Some err, w)
      | Inr from \<Rightarrow>
          (let bundlefile = (if Unsigned ex then ''bundle.json'' else ''bundle.cnab'');
               to = filepath_Join archiveDir bundlefile
           in case os_OpenFile env w to of
                Inl err \<Rightarrow> (Some err, w)
              | Inr w1 \<Rightarrow>
                  (case io_Copy_over env w1 to (file_stream env w1 from) of
                     (Some err, w2) \<Rightarrow> (Some err, w2)
                   | (None, w2) \<Rightarrow>
                       if \<not> Thin ex
                       then (case prepareArtifacts env bun archiveDir logsf w2 of
                               (Some err, bun', w3) \<Rightarrow>
                                 (Some (ErrorString (''Error preparing artifacts: '' @ Error err)), w3)
                             | (None, bun', w3) \<Rightarrow>
                                 (case writeBundle env bun' (Signer ex) (SecretKeyRing ex) to w3 of
                                    (Some err, w4) \<Rightarrow>
                                      (Some (ErrorString
                                         (''Error writing updated bundle file: '' @ Error err)), w4)
                                  | (None, w4) \<Rightarrow> Export_archive ex env name archiveDir w4))
                       else Export_archive ex env name archiveDir w2)))"

text \<open>
  \<open>Export\<close> up to the staging directory. \<open>os.Stat\<close> answers an error with a nil
  \<open>FileInfo\<close>; the source tests the error with \<open>os.IsNotExist\<close> only and then calls
  \<open>fi.IsDir()\<close>. The deferred \<open>os.RemoveAll\<close> runs on every way out of the rest.
\<close>

definition Export :: "Exporter \<Rightarrow> export_env \<Rightarrow> world \<Rightarrow> go_error option outcome \<times> world" where
  "Export ex env w =
     (case os_Create env w (Logs ex) of
        Inl err \<Rightarrow> (Returns (Some err), w)
      | Inr (logsf, w1) \<Rightarrow>
          (case os_Stat env w1 (Source ex) of
             Inl err \<Rightarrow>
               if os_IsNotExist (Some err) then (Returns (Some err), w1)
               else (Panics ''invalid memory address or nil pointer dereference'', w1)
           | Inr fi \<Rightarrow>
               if IsDir fi
               then (Returns (Some (ErrorString (''Bundle manifest '' @ Source ex
                       @ '' is a directory, should be a file''))), w1)
               else (case Loader_Load env w1 (Source ex) of
                       Inl err \<Rightarrow>
                         (Returns (Some (ErrorString (''Error loading bundle: '' @ Error err))), w1)
                     | Inr bun \<Rightarrow>
                         (let name = Name bun @ ''-'' @ Version bun in
                          case filepath_Abs env (name @ ''-export'') of
                            Inl err \<Rightarrow> (Returns (Some err), w1)
                          | Inr archiveDir \<Rightarrow>
                              (case os_MkdirAll env w1 archiveDir of
                                 Inl err \<Rightarrow> (Returns (Some err), w1)
                               | Inr w2 \<Rightarrow>
                                   (case Export_staged ex env bun name archiveDir logsf w2 of
                                      (err, w3) \<Rightarrow> (Returns err, os_RemoveAll env w3 archiveDir)))))))"

section \<open>Notions the properties are stated with\<close>

text \<open>
  The references that \<open>prepareArtifacts\<close> archives, in the order of its two loops;
  the references of the pull requests the Docker daemon has received; and when a
  reference cannot be archived whatever the file system does: the pull fails, the
  save fails, or the saved stream breaks while it is read.
\<close>

definition image_refs :: "Bundle \<Rightarrow> string list" where
  "image_refs bun = map (\<lambda>(key, img). Image img) (Images bun) @ map Image (InvocationImages bun)"

fun pull_of :: "call \<Rightarrow> string option" where
  "pull_of (CallImagePull r) = Some r"
| "pull_of c = None"

definition pulled :: "world \<Rightarrow> string list" where
  "pulled w = List.map_filter pull_of (calls w)"

definition image_fails :: "export_env \<Rightarrow> string \<Rightarrow> bool" where
  "image_fails env r =
     (case Client_ImagePull env r of
        Inl err \<Rightarrow> True
      | Inr pullLogs \<Rightarrow>
          (case Client_ImageSave env r of
             Inl err \<Rightarrow> True
           | Inr reader \<Rightarrow> read_error reader \<noteq> None))"

text \<open>
  The artifact name as the specification words it: every \<open>/\<close> and every \<open>:\<close> of the
  reference becomes \<open>-\<close>, and \<open>.tar\<close> is appended.
\<close>

definition spec_artifact_name :: "string \<Rightarrow> string" where
  "spec_artifact_name r =
     map (\<lambda>c. if c = CHR ''/'' \<or> c = CHR '':'' then CHR ''-'' else c) r @ ''.tar''"

text \<open>
  The staging directory \<open><name>-<version>-export\<close> below the working directory,
  the name of the destination, and a staging directory that is not there yet:
  nothing of the world lies at it or below it.
\<close>

definition staging_name :: "Bundle \<Rightarrow> string" where
  "staging_name bun = Name bun @ ''-'' @ Version bun @ ''-export''"

definition staging_path :: "export_env \<Rightarrow> Bundle \<Rightarrow> path" where
  "staging_path env bun =
     clean_onto (if is_abs (staging_name bun) then [] else cwd env)
       (split_on CHR ''/'' (staging_name bun))"

definition dest_name :: "Exporter \<Rightarrow> Bundle \<Rightarrow> string" where
  "dest_name ex bun =
     (if Destination ex \<noteq> [] then Destination ex else Name bun @ ''-'' @ Version bun @ ''.tgz'')"

definition staging_fresh :: "world \<Rightarrow> path \<Rightarrow> bool" where
  "staging_fresh w sp = (\<forall>p \<in> set (map fst (files w)) \<union> set (dirs w). \<not> prefix sp p)"

definition file_paths :: "world \<Rightarrow> path set" where
  "file_paths w = set (map fst (files w))"

definition descriptor_name :: "Exporter \<Rightarrow> string" where
  "descriptor_name ex = (if Unsigned ex then ''bundle.json'' else ''bundle.cnab'')"

text \<open>
  Archiving a list of references one after the other and stopping at the first
  error: what both loops of \<open>prepareArtifacts\<close> do to the world.
\<close>

fun archive_refs :: "export_env \<Rightarrow> path \<Rightarrow> path \<Rightarrow> string list \<Rightarrow> world \<Rightarrow> go_error option \<times> world" where
  "archive_refs env artifactsDir logs [] w = (None, w)"
| "archive_refs env artifactsDir logs (r # rs) w =
     (case archiveImage env r artifactsDir logs w of
        ((name, checksum, Some err), w1) \<Rightarrow> (Some err, w1)
      | ((name, checksum, None), w1) \<Rightarrow> archive_refs env artifactsDir logs rs w1)"

section \<open>Concrete scenarios\<close>

text \<open>
  The scenario of the specification: bundle \<open>app\<close> 1.0.0 with the image
  \<open>postgres:12\<close>, exported from the directory \<open>/work\<close> with a one-key keyring,
  a registry that serves every image, and no failure injected.
\<close>

definition demo_bundle :: Bundle where
  "demo_bundle = \<lparr>Name = ''app'', Version = ''1.0.0'',
     Images = [(''db'', \<lparr>Image = ''postgres:12'', Digest = []\<rparr>)], InvocationImages = []\<rparr>"

definition demo_env :: export_env where
  "demo_env = \<lparr>cwd = [''work''], fault = (\<lambda>opn. None),
     Loader_Load = (\<lambda>w s. Inr demo_bundle),
     Client_ImagePull = (\<lambda>r. Inr \<lparr>stream_data = bytes_of (''pull '' @ r), read_error = None\<rparr>),
     Client_ImageSave = (\<lambda>r. Inr \<lparr>stream_data = bytes_of (''image '' @ r), read_error = None\<rparr>),
     LoadKeyRing = (\<lambda>w s. Inr [''alice'']),
     Keyring_Key = (\<lambda>kr n. if n \<in> set kr then Inr n else Inl (ErrorString ''key not found'')),
     Signer_Clearsign = (\<lambda>k b. (bytes_of (''signed by '' @ k), None))\<rparr>"

definition demo_world :: world where
  "demo_world =
     \<lparr>files = [([''work'', ''bundle.cnab''], bytes_of ''descriptor'')], dirs = [[''work'']], calls = []\<rparr>"

definition demo_exporter :: Exporter where
  "demo_exporter = \<lparr>Source = ''bundle.cnab'', Destination = [], Thin = True, Logs = ''export.log'',
     Unsigned = False, Signer = [], SecretKeyRing = ''keys''\<rparr>"

text \<open>
  The world as \<open>Export\<close> has made it when \<open>prepareArtifacts\<close> starts: log created,
  staging directory made, descriptor staged. And the same with \<open>artifacts/\<close> made.
\<close>

definition prepared_world :: world where
  "prepared_world =
     \<lparr>files = [([''work'', ''bundle.cnab''], bytes_of ''descriptor''),
               ([''work'', ''export.log''], []),
               ([''work'', ''app-1.0.0-export'', ''bundle.cnab''], bytes_of ''descriptor'')],
      dirs = [[''work''], [''work'', ''app-1.0.0-export'']], calls = []\<rparr>"

definition artifacts_world :: world where
  "artifacts_world =
     prepared_world\<lparr>dirs := dirs prepared_world @ [[''work'', ''app-1.0.0-export'', ''artifacts'']]\<rparr>"



text \<open>A registry that has no image \<open>missing:1\<close>, and a bundle that asks for it second of three.\<close>

definition gap_bundle :: Bundle where
  "gap_bundle = \<lparr>Name = ''app'', Version = ''1.0.0'',
     Images = [(''a'', \<lparr>Image = ''first:1'', Digest = []\<rparr>), (''b'', \<lparr>Image = ''missing:1'', Digest = []\<rparr>)],
     InvocationImages = [\<lparr>Image = ''last:1'', Digest = []\<rparr>]\<rparr>"

definition gap_env :: export_env where
  "gap_env = demo_env\<lparr>Loader_Load := (\<lambda>w s. Inr gap_bundle),
     Client_ImagePull := (\<lambda>r. if r = ''missing:1'' then Inl (ErrorString ''manifest unknown'')
        else Inr \<lparr>stream_data = bytes_of (''pull '' @ r), read_error = None\<rparr>)\<rparr>"

text \<open>A keyring file that holds no key.\<close>

definition nokey_env :: export_env where
  "nokey_env = demo_env\<lparr>LoadKeyRing := (\<lambda>w s. Inr [])\<rparr>"

text \<open>The source lies in a directory the user may not search: \<open>stat\<close> answers \<open>EACCES\<close>.\<close>

definition denied_env :: export_env where
  "denied_env = demo_env\<lparr>fault := (\<lambda>opn. if opn = OpStat [''srv'', ''private'', ''bundle.cnab'']
                                     then Some EACCES else None)\<rparr>"

definition denied_exporter :: Exporter where
  "denied_exporter = demo_exporter\<lparr>Source := ''/srv/private/bundle.cnab''\<rparr>"

text \<open>
  The staging directory of \<open>app\<close> 1.0.0 is already there, with a file in it; and a
  world where a regular file has its name.
\<close>

definition staged_world :: world where
  "staged_world =
     \<lparr>files = [([''work'', ''bundle.cnab''], bytes_of ''descriptor''),
               ([''work'', ''app-1.0.0-export'', ''left-over''], bytes_of ''old'')],
      dirs = [[''work''], [''work'', ''app-1.0.0-export'']], calls = []\<rparr>"

definition blocked_world :: world where
  "blocked_world =
     \<lparr>files = [([''work'', ''bundle.cnab''], bytes_of ''descriptor''),
               ([''work'', ''app-1.0.0-export''], bytes_of ''a file'')],
      dirs = [[''work'']], calls = []\<rparr>"

text \<open>
  Loaders for the command package: the secure loader finds no signature block in
  \<open>plain.json\<close>, an invalid signature in \<open>forged.cnab\<close>, and malformed JSON in
  \<open>broken.cnab\<close>.
\<close>

definition demo_load_env :: "unit load_env" where
  "demo_load_env = \<lparr>homePath = ''/home/user/.duffle'',
     loadVerifyingKeyRings = (\<lambda>home. Inr ()),
     NewDetectingLoader = (\<lambda>file. (Some demo_bundle, None)),
     NewSecureLoader = (\<lambda>kr file.
        if file = ''plain.json'' then (None, Some (ErrorString ''no signature block in data''))
        else if file = ''forged.cnab'' then (None, Some (ErrorString ''invalid signature''))
        else if file = ''broken.cnab'' then (None, Some (ErrorString ''unexpected end of JSON input''))
        else (Some demo_bundle, None))\<rparr>"

text \<open>The same loaders where the verifying keyrings cannot be read: no loader is obtained.\<close>

definition lost_home_load_env :: "unit load_env" where
  "lost_home_load_env = demo_load_env\<lparr>loadVerifyingKeyRings :=
     (\<lambda>home. Inl (PathError ''open'' (home @ ''/public.ring'') ENOENT))\<rparr>"

text \<open>
  Docker clients for the digester: one whose stream reads to the end, one whose
  stream breaks on the way, one that cannot save the image.
\<close>

definition good_client :: digester_client where
  "good_client = \<lparr>client_ImageSave = (\<lambda>r. Inr \<lparr>stream_data = bytes_of (''image '' @ r), read_error = None\<rparr>),
     canonical_digest = (\<lambda>b. ''sha256:0123'')\<rparr>"

definition broken_client :: digester_client where
  "broken_client = \<lparr>client_ImageSave = (\<lambda>r. Inr \<lparr>stream_data = bytes_of ''ima'',
        read_error = Some (ErrorString ''unexpected EOF'')\<rparr>),
     canonical_digest = (\<lambda>b. ''sha256:0123'')\<rparr>"

definition refusing_client :: digester_client where
  "refusing_client = \<lparr>client_ImageSave = (\<lambda>r. Inl (ErrorString ''No such image'')),
     canonical_digest = (\<lambda>b. ''sha256:0123'')\<rparr>"

section \<open>Evaluating the model\<close>

lemmas path_defs =
  resolve_def is_abs_def filepath_Abs_def filepath_Join_def render_path_def
  staging_path_def staging_name_def dest_name_def descriptor_name_def

lemmas syscall_defs =
  is_dir_def is_file_def missing_errno_def stat_path_def os_Stat_def create_path_def
  os_Create_def os_OpenFile_def os_Open_def os_MkdirAll_def os_RemoveAll_def
  write_append_def write_over_def file_stream_def io_Copy_def io_Copy_over_def
  ioutil_WriteFile_def tar_files_def tar_dirs_def archive_TarWithOptions_def

lemmas exporter_defs =
  log_call_def archiveImage_def prepareArtifacts_def writeBundle_def
  Export_archive_def Export_staged_def Export_def buildFileName_def Let_def

lemmas scenario_defs =
  demo_bundle_def demo_env_def demo_world_def demo_exporter_def bytes_of_def newline_def

section \<open>Strings and paths\<close>

lemma strings_Replace_char:
  "strings_Replace s [a] [b] = map (\<lambda>c. if c = a then b else c) s"
  by (induction s) auto

lemma buildFileName_spec: "buildFileName uri @ ''.tar'' = spec_artifact_name uri"
  by (simp add: buildFileName_def spec_artifact_name_def strings_Replace_char)

lemma spec_artifact_name_no_slash: "CHR ''/'' \<notin> set (spec_artifact_name r)"
  by (auto simp: spec_artifact_name_def)

lemma split_on_absent: "sep \<notin> set s \<Longrightarrow> split_on sep s = [s]"
  by (induction s) auto

lemma spec_artifact_name_regular:
  "spec_artifact_name r \<noteq> [] \<and> spec_artifact_name r \<noteq> ''.'' \<and> spec_artifact_name r \<noteq> ''..''"
proof -
  have "length (spec_artifact_name r) \<ge> 4" by (simp add: spec_artifact_name_def)
  then show ?thesis by auto
qed

lemma filepath_Join_artifact:
  "filepath_Join dir (spec_artifact_name r) = dir @ [spec_artifact_name r]"
  using spec_artifact_name_regular [of r]
  by (simp add: filepath_Join_def split_on_absent spec_artifact_name_no_slash)

lemma filepath_Join_artifacts: "filepath_Join dir ''artifacts'' = dir @ [''artifacts'']"
  by (simp add: filepath_Join_def)

section \<open>What the system calls change\<close>

lemma keys_update: "set (map fst (AList.update k v al)) = insert k (set (map fst al))"
  using AList.dom_update [of k v al] by simp

lemma map_of_in_keys: "map_of al k = Some v \<Longrightarrow> k \<in> set (map fst al)"
  by (force dest: map_of_SomeD)

lemma file_paths_update [simp]:
  "file_paths (w\<lparr>files := AList.update p c (files w)\<rparr>) = insert p (file_paths w)"
  by (simp add: file_paths_def keys_update del: set_map)

lemma file_paths_map_of: "map_of (files w) p = Some c \<Longrightarrow> p \<in> file_paths w"
  unfolding file_paths_def by (rule map_of_in_keys)

lemma file_paths_write_append [simp]: "file_paths (write_append w p d) = file_paths w"
proof (cases "map_of (files w) p")
  case None
  then show ?thesis by (simp add: write_append_def)
next
  case (Some old)
  then show ?thesis
    using file_paths_map_of [OF Some] by (simp add: write_append_def insert_absorb)
qed

lemma file_paths_write_over [simp]: "file_paths (write_over w p d) = file_paths w"
proof (cases "map_of (files w) p")
  case None
  then show ?thesis by (simp add: write_over_def)
next
  case (Some old)
  then show ?thesis
    using file_paths_map_of [OF Some] by (simp add: write_over_def insert_absorb)
qed

lemma dirs_write_append [simp]: "dirs (write_append w p d) = dirs w"
  by (simp add: write_append_def split: option.splits)

lemma calls_write_append [simp]: "calls (write_append w p d) = calls w"
  by (simp add: write_append_def split: option.splits)

lemma dirs_write_over [simp]: "dirs (write_over w p d) = dirs w"
  by (simp add: write_over_def split: option.splits)

lemma calls_write_over [simp]: "calls (write_over w p d) = calls w"
  by (simp add: write_over_def split: option.splits)

lemma map_of_write_append:
  "map_of (files (write_append w p d)) q =
     (if q = p then map_option (\<lambda>old. old @ d) (map_of (files w) p) else map_of (files w) q)"
  by (simp add: write_append_def AList.update_conv' split: option.splits)

lemma map_of_write_over:
  "map_of (files (write_over w p d)) q =
     (if q = p then map_option (\<lambda>old. d @ drop (length d) old) (map_of (files w) p)
      else map_of (files w) q)"
  by (simp add: write_over_def AList.update_conv' split: option.splits)

lemma log_call_simps [simp]:
  "files (log_call c w) = files w" "dirs (log_call c w) = dirs w"
  "calls (log_call c w) = calls w @ [c]" "file_paths (log_call c w) = file_paths w"
  by (simp_all add: log_call_def file_paths_def)

lemma is_dir_frame: "dirs w' = dirs w \<Longrightarrow> is_dir w' p = is_dir w p"
  by (simp add: is_dir_def)

lemma create_path_Inr:
  assumes "create_path env w n p = Inr w'"
  shows "file_paths w' = insert p (file_paths w)" and "dirs w' = dirs w" and "calls w' = calls w"
    and "map_of (files w') = (map_of (files w))(p \<mapsto> [])"
    and "\<not> is_dir w p" and "is_dir w (butlast p)"
  using assms
  by (auto simp: create_path_def AList.update_conv' split: option.splits if_splits)

lemma io_Copy_snd:
  "snd (io_Copy env w dst s) = w \<or> snd (io_Copy env w dst s) = write_append w dst (stream_data s)"
  by (simp add: io_Copy_def split: option.splits)

lemma io_Copy_None:
  "io_Copy env w dst s = (None, w') \<Longrightarrow> w' = write_append w dst (stream_data s)"
  by (auto simp: io_Copy_def split: option.splits)

lemma io_Copy_frame [simp]:
  "file_paths (snd (io_Copy env w dst s)) = file_paths w"
  "dirs (snd (io_Copy env w dst s)) = dirs w"
  "calls (snd (io_Copy env w dst s)) = calls w"
  using io_Copy_snd [of env w dst s] by auto

lemma file_paths_fold [simp]: "fst ` set (files w) = file_paths w"
  by (simp add: file_paths_def)

lemma file_paths_files_update [simp]:
  "file_paths (w\<lparr>files := AList.update p c fs\<rparr>) = insert p (fst ` set fs)"
  by (simp add: file_paths_def AList.dom_update del: file_paths_fold)

lemma pulled_calls_update [simp]: "pulled (w\<lparr>files := fs\<rparr>) = pulled w"
  by (simp add: pulled_def)

lemma pulled_log_call [simp]:
  "pulled (log_call (CallImagePull r) w) = pulled w @ [r]"
  "pulled (log_call (CallImageSave r) w) = pulled w"
  by (simp_all add: pulled_def log_call_def List.map_filter_def)

lemma pulled_write_append [simp]: "pulled (write_append w p d) = pulled w"
  by (simp add: pulled_def)

lemma archiveImage_pulled:
  "pulled (snd (archiveImage env img adir logs w)) = pulled w @ [img]"
  by (auto simp: archiveImage_def Let_def io_Copy_def create_path_def
      split: sum.splits prod.splits option.splits if_splits)

lemma archiveImage_dirs: "dirs (snd (archiveImage env img adir logs w)) = dirs w"
  by (auto simp: archiveImage_def Let_def io_Copy_def create_path_def
      split: sum.splits prod.splits option.splits if_splits)

lemma archiveImage_file_paths:
  "file_paths (snd (archiveImage env img adir logs w)) = file_paths w
   \<or> file_paths (snd (archiveImage env img adir logs w))
       = insert (adir @ [spec_artifact_name img]) (file_paths w)"
  by (auto simp: archiveImage_def Let_def io_Copy_def create_path_def buildFileName_spec
      filepath_Join_artifact
      split: sum.splits prod.splits option.splits if_splits)

lemma archiveImage_frame:
  assumes "q \<noteq> logs" and "q \<noteq> adir @ [spec_artifact_name img]"
  shows "map_of (files (snd (archiveImage env img adir logs w))) q = map_of (files w) q"
  using assms
  by (auto simp: archiveImage_def Let_def io_Copy_def create_path_def buildFileName_spec
      filepath_Join_artifact map_of_write_append AList.update_conv'
      split: sum.splits prod.splits option.splits if_splits)

lemma archiveImage_fails:
  assumes "image_fails env img"
  shows "snd (snd (fst (archiveImage env img adir logs w))) \<noteq> None"
  using assms
  by (auto simp: archiveImage_def Let_def io_Copy_def image_fails_def
      split: sum.splits prod.splits option.splits if_splits)

lemma archiveImage_success:
  assumes "archiveImage env img adir logs w = ((name, checksum, None), w')"
  shows "file_paths w' = insert (adir @ [spec_artifact_name img]) (file_paths w)"
  using assms
  by (auto simp: archiveImage_def Let_def io_Copy_def create_path_def buildFileName_spec
      filepath_Join_artifact
      split: sum.splits prod.splits option.splits if_splits)

section \<open>The example driver\<close>

text \<open>
  C8. Called with \<open>--handles\<close> as its first argument, whatever follows and whatever
  is on standard input, the example driver writes the line \<open>docker,oci,qcow\<close> to
  standard output and exits with code 0; split at the commas, the line is the
  three image types \<open>docker\<close>, \<open>oci\<close> and \<open>qcow\<close>.
\<close>

theorem driver_handles:
  "stdout (driver jq_action (''--handles'' # rest) stdin) = ''docker,oci,qcow'' @ [newline]
   \<and> exit_code (driver jq_action (''--handles'' # rest) stdin) = 0
   \<and> split_on CHR '','' (butlast (stdout (driver jq_action (''--handles'' # rest) stdin)))
       = [''docker'', ''oci'', ''qcow'']"
  by (simp add: driver_def first_arg_def)

section \<open>Loading a bundle\<close>

text \<open>
  C3. \<open>loadBundle\<close> returns the sentinel \<open>ErrNotSigned\<close> exactly when a loader was
  obtained and its \<open>Load\<close> failed with the message \<open>no signature block in data\<close>.
  Every other failure is returned as an error too, and as a different one: a \<open>Load\<close>
  that fails with any other message (invalid signature, malformed JSON) gives the
  error \<open>cannot load <secure|insecure> bundle: <message>\<close> beside the loader's bundle,
  and verifying keyrings that cannot be read give \<open>cannot securely load bundle: <message>\<close>
  and no bundle. Neither is the sentinel, and neither has the sentinel's message.
  \<open>loadBundle\<close> returns no error only when a loader was obtained and its \<open>Load\<close>
  succeeded.
\<close>

theorem loadBundle_not_signed_distinct:
  "(snd (loadBundle env bundleFile insecure) = Some ErrNotSigned \<longleftrightarrow>
      (\<exists>l bun err. getLoader env (homePath env) insecure = Inr l
          \<and> l bundleFile = (bun, Some err) \<and> Error err = ''no signature block in data''))
   \<and> (\<forall>e. snd (loadBundle env bundleFile insecure) = Some e \<and> e \<noteq> ErrNotSigned
          \<longrightarrow> Error e \<noteq> Error ErrNotSigned)
   \<and> (\<forall>l bun err. getLoader env (homePath env) insecure = Inr l
          \<and> l bundleFile = (bun, Some err) \<and> Error err \<noteq> ''no signature block in data''
          \<longrightarrow> loadBundle env bundleFile insecure =
                (bun, Some (ErrorString (''cannot load '' @ (if insecure then ''insecure'' else ''secure'')
                                          @ '' bundle: '' @ Error err))))
   \<and> (\<forall>kerr. \<not> insecure \<and> loadVerifyingKeyRings env (homePath env) = Inl kerr
          \<longrightarrow> loadBundle env bundleFile insecure =
                (None, Some (ErrorString (''cannot securely load bundle: '' @ Error kerr))))
   \<and> (snd (loadBundle env bundleFile insecure) = None \<longleftrightarrow>
        (\<exists>l bun. getLoader env (homePath env) insecure = Inr l \<and> l bundleFile = (bun, None)))"
proof -
  have loader_error: "\<And>err. getLoader env (homePath env) insecure = Inl err \<Longrightarrow>
      \<exists>m. err = ErrorString (''cannot securely load bundle: '' @ m)"
    by (auto simp: getLoader_def split: if_splits sum.splits)
  have keyring: "\<And>kerr. \<not> insecure \<Longrightarrow> loadVerifyingKeyRings env (homePath env) = Inl kerr \<Longrightarrow>
      getLoader env (homePath env) insecure
        = Inl (ErrorString (''cannot securely load bundle: '' @ Error kerr))"
    by (simp add: getLoader_def)
  show ?thesis
  proof (cases "getLoader env (homePath env) insecure")
    case (Inl err)
    with loader_error obtain m where "err = ErrorString (''cannot securely load bundle: '' @ m)"
      by blast
    with Inl keyring show ?thesis by (auto simp: loadBundle_def)
  next
    case (Inr l)
    have k: "\<And>kerr. \<not> (\<not> insecure \<and> loadVerifyingKeyRings env (homePath env) = Inl kerr)"
      using Inr keyring by fastforce
    show ?thesis
      using Inr k by (cases "l bundleFile") (auto simp: loadBundle_def Let_def split: option.splits)
  qed
qed

theorem loadBundle_not_signed_distinct_witness:
  "loadBundle demo_load_env ''plain.json'' False = (None, Some ErrNotSigned)
   \<and> loadBundle demo_load_env ''forged.cnab'' False
       = (None, Some (ErrorString ''cannot load secure bundle: invalid signature''))
   \<and> loadBundle demo_load_env ''broken.cnab'' False
       = (None, Some (ErrorString ''cannot load secure bundle: unexpected end of JSON input''))
   \<and> loadBundle lost_home_load_env ''plain.json'' False
       = (None, Some (ErrorString
           ''cannot securely load bundle: open /home/user/.duffle/public.ring: no such file or directory''))
   \<and> loadBundle demo_load_env ''good.cnab'' False = (Some demo_bundle, None)"
  using loadBundle_not_signed_distinct [of demo_load_env "''plain.json''" False]
    loadBundle_not_signed_distinct [of demo_load_env "''forged.cnab''" False]
    loadBundle_not_signed_distinct [of demo_load_env "''broken.cnab''" False]
    loadBundle_not_signed_distinct [of lost_home_load_env "''plain.json''" False]
    loadBundle_not_signed_distinct [of demo_load_env "''good.cnab''" False]
  by (simp add: loadBundle_def getLoader_def demo_load_env_def lost_home_load_env_def)

section \<open>The digester\<close>

text \<open>
  C5 (evaluation at the failing input). When the saved stream breaks while it is
  read, \<open>Digest\<close> returns the read error and the stream is still open: the deferred
  \<open>Close\<close> is registered after the error return. On success the stream is closed. When
  \<open>ImageSave\<close> itself fails, its error is dropped and the nil reader is read.
\<close>

theorem Digest_leaves_stream_open_on_read_failure:
  "Digester_Digest broken_client ''postgres:12'' []
     = (Returns ([], Some (ErrorString ''unexpected EOF'')), [''postgres:12''])
   \<and> Digester_Digest good_client ''postgres:12'' [] = (Returns (''sha256:0123'', None), [])
   \<and> Digester_Digest refusing_client ''postgres:12'' []
     = (Panics ''invalid memory address or nil pointer dereference'', [])"
  by (simp add: Digester_Digest_def FromReader_def stream_Close_def
      broken_client_def good_client_def refusing_client_def)

section \<open>Signing\<close>

text \<open>
  C4. When the keyring that \<open>writeBundle\<close> loads has no key, \<open>writeBundle\<close> returns
  the error \<open>no signing keys are present in the keyring\<close> and leaves the world as it
  was: no file is created or written, and the signer has not been called.
\<close>

theorem writeBundle_empty_keyring:
  assumes "LoadKeyRing env w secretKeyRing = Inr []"
  shows "writeBundle env bf signer secretKeyRing outputFile w
           = (Some (ErrorString ''no signing keys are present in the keyring''), w)"
  using assms by (simp add: writeBundle_def)

theorem writeBundle_empty_keyring_witness:
  "LoadKeyRing nokey_env demo_world ''keys'' = Inr []
   \<and> writeBundle nokey_env demo_bundle [] ''keys'' [''work'', ''app-1.0.0-export'', ''bundle.cnab'']
        demo_world
      = (Some (ErrorString ''no signing keys are present in the keyring''), demo_world)"
proof -
  have h: "LoadKeyRing nokey_env demo_world ''keys'' = Inr []"
    by (simp add: nokey_env_def demo_env_def)
  show ?thesis
    using h writeBundle_empty_keyring [OF h] by simp
qed

section \<open>The source path\<close>

lemma Export_stat_error_panics:
  assumes "os_Create env w (Logs ex) = Inr (logsf, w1)"
    and "os_Stat env w1 (Source ex) = Inl err"
    and "\<not> os_IsNotExist (Some err)"
  shows "Export ex env w = (Panics ''invalid memory address or nil pointer dereference'', w1)"
  using assms by (simp add: Export_def)

text \<open>
  C9 (evaluation at the failing input). The source lies in a directory that the
  user may not search, so \<open>os.Stat\<close> answers \<open>EACCES\<close>, which is not a not-exist
  error: \<open>Export\<close> goes on to \<open>fi.IsDir()\<close> on the nil \<open>FileInfo\<close> and panics.
\<close>

theorem Export_panics_on_stat_permission_error:
  "os_Stat denied_env
      (demo_world\<lparr>files := files demo_world @ [([''work'', ''export.log''], [])]\<rparr>)
      (Source denied_exporter)
     = Inl (PathError ''stat'' ''/srv/private/bundle.cnab'' EACCES)
   \<and> fst (Export denied_exporter denied_env demo_world)
     = Panics ''invalid memory address or nil pointer dereference''"
  by (simp add: denied_env_def denied_exporter_def scenario_defs path_defs syscall_defs
      exporter_defs)

section \<open>Artifact names\<close>

text \<open>
  C6. \<open>archiveImage\<close> is called with the artifacts directory of \<open>prepareArtifacts\<close>.
  When it succeeds for the reference \<open>img\<close>, the name it returns is the reference
  with every \<open>/\<close> and \<open>:\<close> replaced by \<open>-\<close> and \<open>.tar\<close> appended; the saved image is
  a file of that name directly in \<open>artifacts/\<close>, and that file is the only path added
  to the file system. It does succeed when the image can be pulled and saved, the
  saved stream reads to its end, \<open>artifacts/\<close> is a directory, no directory has the
  artifact's name and the file can be created and written. Whatever the outcome, no
  directory is made, and no file other than that artifact is added.
\<close>

theorem archiveImage_artifact_path:
  "(\<forall>name checksum w'.
      archiveImage env img (filepath_Join archiveDir ''artifacts'') logs w = ((name, checksum, None), w')
      \<longrightarrow> name = spec_artifact_name img
        \<and> (\<exists>reader. Client_ImageSave env img = Inr reader
              \<and> map_of (files w') (archiveDir @ [''artifacts'', name]) = Some (stream_data reader))
        \<and> file_paths w' = insert (archiveDir @ [''artifacts'', name]) (file_paths w)
        \<and> dirs w' = dirs w)
   \<and> (\<forall>pullLogs reader.
        Client_ImagePull env img = Inr pullLogs \<and> Client_ImageSave env img = Inr reader
        \<and> read_error reader = None
        \<and> is_dir w (archiveDir @ [''artifacts''])
        \<and> \<not> is_dir w (archiveDir @ [''artifacts'', spec_artifact_name img])
        \<and> fault env (OpCreate (archiveDir @ [''artifacts'', spec_artifact_name img])) = None
        \<and> fault env (OpWrite (archiveDir @ [''artifacts'', spec_artifact_name img])) = None
        \<longrightarrow> fst (archiveImage env img (filepath_Join archiveDir ''artifacts'') logs w)
              = (spec_artifact_name img, ''tempchecksum'', None))
   \<and> dirs (snd (archiveImage env img (filepath_Join archiveDir ''artifacts'') logs w)) = dirs w
   \<and> file_paths (snd (archiveImage env img (filepath_Join archiveDir ''artifacts'') logs w))
        \<subseteq> insert (archiveDir @ [''artifacts'', spec_artifact_name img]) (file_paths w)"
proof (intro conjI allI impI)
  fix name checksum w'
  assume a: "archiveImage env img (filepath_Join archiveDir ''artifacts'') logs w
               = ((name, checksum, None), w')"
  from a show "name = spec_artifact_name img"
    by (auto simp: archiveImage_def Let_def buildFileName_spec
        split: sum.splits prod.splits option.splits)
  from a show "\<exists>reader. Client_ImageSave env img = Inr reader
              \<and> map_of (files w') (archiveDir @ [''artifacts'', name]) = Some (stream_data reader)"
    by (auto simp: archiveImage_def Let_def buildFileName_spec filepath_Join_artifact
      filepath_Join_artifacts map_of_write_append AList.update_conv'
      split: sum.splits prod.splits option.splits dest!: io_Copy_None
      dest: create_path_Inr)
  from a show "file_paths w' = insert (archiveDir @ [''artifacts'', name]) (file_paths w)"
    by (auto simp: archiveImage_def Let_def buildFileName_spec filepath_Join_artifact
      filepath_Join_artifacts map_of_write_append AList.update_conv'
      split: sum.splits prod.splits option.splits dest!: io_Copy_None
      dest: create_path_Inr)
  from a show "dirs w' = dirs w"
    using archiveImage_dirs [of env img "filepath_Join archiveDir ''artifacts''" logs w] by simp
next
  fix pullLogs reader
  assume "Client_ImagePull env img = Inr pullLogs \<and> Client_ImageSave env img = Inr reader
        \<and> read_error reader = None
        \<and> is_dir w (archiveDir @ [''artifacts''])
        \<and> \<not> is_dir w (archiveDir @ [''artifacts'', spec_artifact_name img])
        \<and> fault env (OpCreate (archiveDir @ [''artifacts'', spec_artifact_name img])) = None
        \<and> fault env (OpWrite (archiveDir @ [''artifacts'', spec_artifact_name img])) = None"
  then show "fst (archiveImage env img (filepath_Join archiveDir ''artifacts'') logs w)
              = (spec_artifact_name img, ''tempchecksum'', None)"
    by (simp add: archiveImage_def Let_def buildFileName_spec filepath_Join_artifact
      filepath_Join_artifacts create_path_def io_Copy_def is_dir_def butlast_append
      split: option.splits)
next
  show "dirs (snd (archiveImage env img (filepath_Join archiveDir ''artifacts'') logs w)) = dirs w"
    by (rule archiveImage_dirs)
next
  show "file_paths (snd (archiveImage env img (filepath_Join archiveDir ''artifacts'') logs w))
        \<subseteq> insert (archiveDir @ [''artifacts'', spec_artifact_name img]) (file_paths w)"
    using archiveImage_file_paths [of env img "filepath_Join archiveDir ''artifacts''" logs w]
    by (auto simp: filepath_Join_artifacts)
qed

theorem archiveImage_artifact_path_witness:
  "fst (archiveImage demo_env ''postgres:12''
          (filepath_Join [''work'', ''app-1.0.0-export''] ''artifacts'') [''work'', ''export.log'']
          artifacts_world)
     = (''postgres-12.tar'', ''tempchecksum'', None)
   \<and> spec_artifact_name ''postgres:12'' = ''postgres-12.tar''
   \<and> map_of (files (snd (archiveImage demo_env ''postgres:12''
          (filepath_Join [''work'', ''app-1.0.0-export''] ''artifacts'') [''work'', ''export.log'']
          artifacts_world)))
        [''work'', ''app-1.0.0-export'', ''artifacts'', ''postgres-12.tar'']
     = Some (bytes_of ''image postgres:12'')"
proof -
  let ?r = "archiveImage demo_env ''postgres:12''
          (filepath_Join [''work'', ''app-1.0.0-export''] ''artifacts'') [''work'', ''export.log'']
          artifacts_world"
  note t = archiveImage_artifact_path [of demo_env "''postgres:12''" "[''work'', ''app-1.0.0-export'']"
      "[''work'', ''export.log'']" artifacts_world]
  have n: "spec_artifact_name ''postgres:12'' = ''postgres-12.tar''"
    by (simp add: spec_artifact_name_def)
  have e: "Client_ImagePull demo_env ''postgres:12''
             = Inr \<lparr>stream_data = bytes_of ''pull postgres:12'', read_error = None\<rparr>"
     "Client_ImageSave demo_env ''postgres:12''
             = Inr \<lparr>stream_data = bytes_of ''image postgres:12'', read_error = None\<rparr>"
     "fault demo_env = (\<lambda>opn. None)"
    by (simp_all add: demo_env_def)
  have d: "is_dir artifacts_world [''work'', ''app-1.0.0-export'', ''artifacts'']"
    "\<not> is_dir artifacts_world [''work'', ''app-1.0.0-export'', ''artifacts'', ''postgres-12.tar'']"
    by (simp_all add: is_dir_def artifacts_world_def prepared_world_def)
  from t n e d have f: "fst ?r = (''postgres-12.tar'', ''tempchecksum'', None)"
    by simp
  then have h: "?r = ((''postgres-12.tar'', ''tempchecksum'', None), snd ?r)"
    by (metis prod.collapse)
  from t h e(2) have "map_of (files (snd ?r))
        [''work'', ''app-1.0.0-export'', ''artifacts'', ''postgres-12.tar'']
     = Some (bytes_of ''image postgres:12'')"
    by auto
  with f n show ?thesis by simp
qed


end
